theory Spec2Isabelle
  imports Main "HOL-Library.AList" "HOL-Library.Sublist"
begin

section \<open>Python values and exceptions\<close>

text \<open>
  The values a converter can hand back. Strings are modelled over single-byte
  characters; \<open>PyObj\<close> stands for an opaque host object (a member, a role, ...), which
  Python treats as true.
\<close>

datatype pyval = PyNone | PyBool bool | PyInt int | PyStr string | PyObj nat

fun truthy :: "pyval \<Rightarrow> bool" where
  "truthy PyNone = False"
| "truthy (PyBool b) = b"
| "truthy (PyInt n) = (n \<noteq> 0)"
| "truthy (PyStr s) = (s \<noteq> [])"
| "truthy (PyObj _) = True"

text \<open>\<open>discord.AppCommandOptionType\<close>.\<close>

datatype app_command_option_type =
    OptSubcommand | OptSubcommandGroup | OptString | OptInteger | OptBoolean | OptUser
  | OptChannel | OptRole | OptMentionable | OptNumber | OptAttachment

text \<open>
  The base of a class, as far as \<open>_get_converters\<close> and \<open>_run_converters\<close> look at it:
  \<open>commands.Converter\<close>, \<open>app_commands.Transformer\<close>, \<open>app_commands.Transform\<close>, or
  none of them.
\<close>

datatype base_class = ConverterBase | TransformerBase | TransformBase | NoBase

text \<open>
  \<open>ValidConverter\<close> of \<open>_types.py\<close>, widened to everything a caller can put in a
  converter list: the classes the source names, a union, the transformer instance the
  host library registers for a key (\<open>LIBRARY_BUILT_IN_TRANSFORMERS[k]\<close>), and any other
  class or instance, described by its name and its base.
\<close>

datatype valid_converter =
    builtin_str | builtin_int | builtin_float | builtin_bool
  | discord_User | discord_Member | discord_Role
  | discord_Message | discord_Colour | discord_Emoji | discord_PartialEmoji
  | discord_GuildSticker | discord_ScheduledEvent | discord_Invite | discord_Object
  | discord_Game
  | commands_clean_content | commands_Range | app_commands_Range
  | commands_MemberConverter | commands_RoleConverter | commands_UserConverter
  | commands_GuildChannelConverter | commands_MessageConverter
  | commands_ColourConverter | commands_EmojiConverter | commands_PartialEmojiConverter
  | commands_GuildStickerConverter | commands_ScheduledEventConverter
  | commands_InviteConverter | commands_ObjectConverter | commands_GameConverter
  | StringConverter | IntegerConverter | FloatConverter | BooleanConverter
  | LibraryTransformerFor valid_converter
  | UnionOf "valid_converter list"
  | OtherClass base_class string
  | Instance base_class string

datatype type_error =
    AttachmentNotConvertible
  | UnknownOptionType app_command_option_type
  | ExpectedConverterOrTransform valid_converter
  | IssubclassArgNotClass
  | OtherTypeError string

text \<open>
  Exceptions. The classes of \<open>errors.py\<close> keep the fields the code sets: the value for the
  three type-mismatch errors, (argument, errors) for \<open>ParsingFailed\<close>, (argument,
  received_arguments, message) for \<open>InvalidVariadicArguments\<close> and (argument,
  received_arguments, errors, message) for \<open>VariadicArgsFailed\<close>. \<open>BadArgument\<close> and
  \<open>AppCommandError\<close> stand for the host's classes and their other subclasses.
\<close>

datatype exc =
    NotAString string
  | NotAnInteger string
  | NotFloat string
  | ParsingFailed string "(string \<times> exc) list"
  | InvalidVariadicArguments string "string list" string
  | VariadicArgsFailed string "string list" "(string \<times> exc) list" string
  | BadArgument string
  | AppCommandError string
  | ValueError string
  | TypeError type_error
  | AttributeError string
  | OtherException string

fun is_BadArgument :: "exc \<Rightarrow> bool" where
  "is_BadArgument (BadArgument _) = True"
| "is_BadArgument _ = False"

text \<open>Every class of \<open>errors.py\<close> derives from \<open>app_commands.AppCommandError\<close>.\<close>

fun is_AppCommandError :: "exc \<Rightarrow> bool" where
  "is_AppCommandError (NotAString _) = True"
| "is_AppCommandError (NotAnInteger _) = True"
| "is_AppCommandError (NotFloat _) = True"
| "is_AppCommandError (ParsingFailed _ _) = True"
| "is_AppCommandError (InvalidVariadicArguments _ _ _) = True"
| "is_AppCommandError (VariadicArgsFailed _ _ _ _) = True"
| "is_AppCommandError (AppCommandError _) = True"
| "is_AppCommandError _ = False"

fun is_ValueError :: "exc \<Rightarrow> bool" where
  "is_ValueError (ValueError _) = True"
| "is_ValueError _ = False"

fun is_ParsingFailed :: "exc \<Rightarrow> bool" where
  "is_ParsingFailed (ParsingFailed _ _) = True"
| "is_ParsingFailed _ = False"

fun is_InvalidVariadicArguments :: "exc \<Rightarrow> bool" where
  "is_InvalidVariadicArguments (InvalidVariadicArguments _ _ _) = True"
| "is_InvalidVariadicArguments _ = False"

fun is_VariadicArgsFailed :: "exc \<Rightarrow> bool" where
  "is_VariadicArgsFailed (VariadicArgsFailed _ _ _ _) = True"
| "is_VariadicArgsFailed _ = False"

datatype outcome = Returned pyval | Raised exc

section \<open>Python built-ins used by the code\<close>

subsection \<open>\<open>str.split(sep)\<close>\<close>

fun split_from :: "string \<Rightarrow> string \<Rightarrow> string \<Rightarrow> string list" where
  "split_from sep acc [] = [acc]"
| "split_from sep acc (c # cs) =
     (case sep of
        [] \<Rightarrow> split_from sep (acc @ [c]) cs
      | d # ds \<Rightarrow>
          if prefix sep (c # cs) then acc # split_from sep [] (drop (length ds) cs)
          else split_from sep (acc @ [c]) cs)"

text \<open>An empty separator raises \<open>ValueError\<close>; otherwise the result has at least one item.\<close>

definition str_split :: "string \<Rightarrow> string \<Rightarrow> exc + string list" where
  "str_split s sep =
     (if sep = [] then Inl (ValueError ''empty separator'') else Inr (split_from sep [] s))"

subsection \<open>\<open>int(argument)\<close> and \<open>str(n)\<close>\<close>

definition is_space :: "char \<Rightarrow> bool" where
  "is_space c = (c \<in> set [CHR 0x09, CHR 0x0A, CHR 0x0B, CHR 0x0C, CHR 0x0D,
                          CHR 0x1C, CHR 0x1D, CHR 0x1E, CHR 0x1F, CHR 0x20,
                          CHR 0x85, CHR 0xA0])"

definition strip :: "string \<Rightarrow> string" where
  "strip s = rev (dropWhile is_space (rev (dropWhile is_space s)))"

definition digit_val :: "char \<Rightarrow> int option" where
  "digit_val c =
     map_of [(CHR ''0'', 0), (CHR ''1'', 1), (CHR ''2'', 2), (CHR ''3'', 3), (CHR ''4'', 4),
             (CHR ''5'', 5), (CHR ''6'', 6), (CHR ''7'', 7), (CHR ''8'', 8), (CHR ''9'', 9)] c"

text \<open>
  Decimal digits, with single underscores allowed between digits. The flag says whether
  the previous character was a digit.
\<close>

fun digits_val :: "string \<Rightarrow> int \<Rightarrow> bool \<Rightarrow> int option" where
  "digits_val [] acc prev_digit = (if prev_digit then Some acc else None)"
| "digits_val (c # cs) acc prev_digit =
     (if c = CHR ''_'' then
        (if prev_digit \<and> cs \<noteq> [] then digits_val cs acc False else None)
      else (case digit_val c of
              None \<Rightarrow> None
            | Some d \<Rightarrow> digits_val cs (10 * acc + d) True))"

text \<open>\<open>int(s)\<close> in base ten: \<open>None\<close> where Python raises \<open>ValueError\<close>.\<close>

definition py_int :: "string \<Rightarrow> int option" where
  "py_int s =
     (case strip s of
        [] \<Rightarrow> None
      | c # cs \<Rightarrow>
          if c = CHR ''-'' then map_option uminus (digits_val cs 0 False)
          else if c = CHR ''+'' then digits_val cs 0 False
          else digits_val (c # cs) 0 False)"

fun nat_digits :: "nat \<Rightarrow> string" where
  "nat_digits n =
     (if n < 10 then [''0123456789'' ! n]
      else nat_digits (n div 10) @ [''0123456789'' ! (n mod 10)])"

definition py_str_int :: "int \<Rightarrow> string" where
  "py_str_int n = (if n < 0 then CHR ''-'' # nat_digits (nat (- n)) else nat_digits (nat n))"

text \<open>How an f-string renders an \<open>Optional[int]\<close>.\<close>

fun py_str_opt_int :: "int option \<Rightarrow> string" where
  "py_str_opt_int None = ''None''"
| "py_str_opt_int (Some n) = py_str_int n"

section \<open>The converter normalizer (\<open>utils.py\<close>)\<close>

text \<open>
  \<open>LIBRARY_BUILT_IN_TRANSFORMERS\<close> is the host library's table and not part of this
  repository: it is a parameter \<open>lib\<close>, giving for each key the option type of the
  transformer registered for it. The entries \<open>converters.py\<close> adds on its left are below;
  in \<open>BUILT_IN_TRANSFORMERS\<close> the library's entries win, as the right operand of \<open>|\<close> does.
\<close>

type_synonym library_table = "valid_converter \<Rightarrow> app_command_option_type option"

definition LOCAL_TRANSFORMERS :: "valid_converter \<Rightarrow> valid_converter option" where
  "LOCAL_TRANSFORMERS =
     map_of [
       (discord_Message, commands_MessageConverter),
       (discord_Colour, commands_ColourConverter),
       (discord_Emoji, commands_EmojiConverter),
       (discord_PartialEmoji, commands_PartialEmojiConverter),
       (discord_GuildSticker, commands_GuildStickerConverter),
       (discord_ScheduledEvent, commands_ScheduledEventConverter),
       (discord_Invite, commands_InviteConverter),
       (discord_Object, commands_ObjectConverter),
       (discord_Game, commands_GameConverter),
       (commands_clean_content, LibraryTransformerFor builtin_str),
       (commands_Range, app_commands_Range),
       (builtin_bool, BooleanConverter)]"

definition BUILT_IN_TRANSFORMERS :: "library_table \<Rightarrow> valid_converter \<Rightarrow> valid_converter option" where
  "BUILT_IN_TRANSFORMERS lib item =
     (case lib item of
        Some t \<Rightarrow> Some (LibraryTransformerFor item)
      | None \<Rightarrow> LOCAL_TRANSFORMERS item)"

fun isclass :: "valid_converter \<Rightarrow> bool" where
  "isclass (LibraryTransformerFor _) = False"
| "isclass (UnionOf _) = False"
| "isclass (Instance _ _) = False"
| "isclass _ = True"

text \<open>
  The base of a class, or of the class of an instance. \<open>StringConverter\<close> and
  \<open>IntegerConverter\<close> derive from \<open>app_commands.Transformer\<close>, \<open>BooleanConverter\<close> and
  \<open>FloatConverter\<close> from \<open>app_commands.Transform\<close> (\<open>converters.py\<close>, lines 51 to 77).
\<close>

fun class_base :: "valid_converter \<Rightarrow> base_class" where
  "class_base commands_clean_content = ConverterBase"
| "class_base commands_MemberConverter = ConverterBase"
| "class_base commands_RoleConverter = ConverterBase"
| "class_base commands_UserConverter = ConverterBase"
| "class_base commands_GuildChannelConverter = ConverterBase"
| "class_base commands_MessageConverter = ConverterBase"
| "class_base commands_ColourConverter = ConverterBase"
| "class_base commands_EmojiConverter = ConverterBase"
| "class_base commands_PartialEmojiConverter = ConverterBase"
| "class_base commands_GuildStickerConverter = ConverterBase"
| "class_base commands_ScheduledEventConverter = ConverterBase"
| "class_base commands_InviteConverter = ConverterBase"
| "class_base commands_ObjectConverter = ConverterBase"
| "class_base commands_GameConverter = ConverterBase"
| "class_base StringConverter = TransformerBase"
| "class_base IntegerConverter = TransformerBase"
| "class_base FloatConverter = TransformBase"
| "class_base BooleanConverter = TransformBase"
| "class_base (LibraryTransformerFor _) = TransformerBase"
| "class_base (OtherClass b _) = b"
| "class_base (Instance b _) = b"
| "class_base _ = NoBase"

text \<open>
  \<open>_custom_is_subclass\<close>: a class is tested itself, anything else through its class.
\<close>

definition custom_is_subclass :: "valid_converter \<Rightarrow> base_class \<Rightarrow> bool" where
  "custom_is_subclass to_check classes =
     (if isclass to_check then class_base to_check = classes
      else class_base to_check = classes)"

text \<open>The argument is the \<open>type\<close> of the library's transformer.\<close>

fun converter_from_appcommandoptiontype ::
  "app_command_option_type \<Rightarrow> exc + valid_converter list" where
  "converter_from_appcommandoptiontype OptAttachment = Inl (TypeError AttachmentNotConvertible)"
| "converter_from_appcommandoptiontype OptString = Inr [StringConverter]"
| "converter_from_appcommandoptiontype OptInteger = Inr [IntegerConverter]"
| "converter_from_appcommandoptiontype OptNumber = Inr [FloatConverter]"
| "converter_from_appcommandoptiontype OptBoolean = Inr [BooleanConverter]"
| "converter_from_appcommandoptiontype OptUser = Inr [commands_MemberConverter]"
| "converter_from_appcommandoptiontype OptRole = Inr [commands_RoleConverter]"
| "converter_from_appcommandoptiontype OptChannel = Inr [commands_GuildChannelConverter]"
| "converter_from_appcommandoptiontype OptMentionable =
     Inr [commands_MemberConverter, commands_RoleConverter, commands_UserConverter]"
| "converter_from_appcommandoptiontype arg_type = Inl (TypeError (UnknownOptionType arg_type))"

definition unpack_union :: "valid_converter \<Rightarrow> valid_converter list" where
  "unpack_union maybe_union = (case maybe_union of UnionOf args \<Rightarrow> args | _ \<Rightarrow> [])"

text \<open>The test of lines 80 to 83 on one member of a union.\<close>

definition mentionable_member :: "valid_converter \<Rightarrow> bool" where
  "mentionable_member uitem =
     (uitem \<in> set [discord_Member, discord_Role] \<or> uitem \<in> set [discord_User, discord_Role])"

text \<open>
  Lines 95 to 105, for an item that is not a union. \<open>issubclass\<close> raises \<open>TypeError\<close> on
  an object that is not a class.
\<close>

definition convert_item :: "library_table \<Rightarrow> valid_converter \<Rightarrow> exc + valid_converter list" where
  "convert_item lib item =
     (case BUILT_IN_TRANSFORMERS lib item of
        None \<Rightarrow>
          if \<not> isclass item then Inl (TypeError IssubclassArgNotClass)
          else if \<not> (class_base item = TransformBase \<or> class_base item = ConverterBase)
          then Inl (TypeError (ExpectedConverterOrTransform item))
          else Inr [item]
      | Some builtin \<Rightarrow>
          (case lib item of
             Some t \<Rightarrow> converter_from_appcommandoptiontype t
           | None \<Rightarrow> Inr [builtin]))"

text \<open>
  \<open>_get_converters\<close>. The loop over the items is the recursion on the list; a raise
  anywhere ends the whole call.
\<close>

fun get_converters :: "library_table \<Rightarrow> valid_converter list \<Rightarrow> exc + valid_converter list" where
  "get_converters lib [] = Inr []"
| "get_converters lib (UnionOf (u # us) # rest) =
     (case (if list_all mentionable_member (u # us)
            then Inr [commands_MemberConverter, commands_RoleConverter, commands_UserConverter]
            else get_converters lib (u # us)) of
        Inl e \<Rightarrow> Inl e
      | Inr found \<Rightarrow>
          (case get_converters lib rest of
             Inl e \<Rightarrow> Inl e
           | Inr others \<Rightarrow> Inr (found @ others)))"
| "get_converters lib (item # rest) =
     (case convert_item lib item of
        Inl e \<Rightarrow> Inl e
      | Inr found \<Rightarrow>
          (case get_converters lib rest of
             Inl e \<Rightarrow> Inl e
           | Inr others \<Rightarrow> Inr (found @ others)))"

section \<open>The single-value resolver (\<open>utils.py\<close>)\<close>

text \<open>
  What the host's converters do is a parameter: \<open>host interaction converter value\<close> is
  the outcome of instantiating the converter and calling it on the value
  (\<open>convert(ctx, str(value))\<close>, \<open>transform(interaction, value)\<close> or \<open>converter(value)\<close>,
  whichever \<open>_run_converters\<close> picks for it). The two transformers of this repository
  that \<open>_run_converters\<close> calls through \<open>transform\<close> are written out: \<open>str(argument)\<close>
  never raises on a string, and \<open>int(argument)\<close> raises \<open>ValueError\<close>, turned into
  \<open>NotAnInteger\<close>.
\<close>

type_synonym 'i host = "'i \<Rightarrow> valid_converter \<Rightarrow> string \<Rightarrow> outcome"

fun invoke :: "'i host \<Rightarrow> 'i \<Rightarrow> valid_converter \<Rightarrow> string \<Rightarrow> outcome" where
  "invoke host interaction StringConverter v = Returned (PyStr v)"
| "invoke host interaction IntegerConverter v =
     (case py_int v of Some n \<Rightarrow> Returned (PyInt n) | None \<Rightarrow> Raised (NotAnInteger v))"
| "invoke host interaction converter v = host interaction converter v"

text \<open>The \<open>except\<close> clause of the branch \<open>_run_converters\<close> takes for the converter.\<close>

definition expected_error :: "valid_converter \<Rightarrow> exc \<Rightarrow> bool" where
  "expected_error converter e =
     (if custom_is_subclass converter ConverterBase then is_BadArgument e
      else if custom_is_subclass converter TransformerBase then is_AppCommandError e
      else is_ValueError e)"

text \<open>
  The loop of \<open>_run_converters\<close> on the state (converted_value, used_converter, error).
  An exception outside the expected kind leaves the function (\<open>Inl\<close>).
\<close>

fun run_loop ::
  "'i host \<Rightarrow> 'i \<Rightarrow> string \<Rightarrow> valid_converter list \<Rightarrow>
   pyval \<times> valid_converter option \<times> exc option \<Rightarrow>
   exc + pyval \<times> valid_converter option \<times> exc option" where
  "run_loop host interaction v [] st = Inr st"
| "run_loop host interaction v (converter # rest) (converted_value, used_converter, error) =
     (if truthy converted_value then Inr (converted_value, used_converter, error)
      else (case invoke host interaction converter v of
              Returned r \<Rightarrow> run_loop host interaction v rest (r, Some converter, error)
            | Raised e \<Rightarrow>
                if expected_error converter e
                then run_loop host interaction v rest (converted_value, Some converter, Some e)
                else Inl e))"

definition run_converters ::
  "'i host \<Rightarrow> valid_converter list \<Rightarrow> 'i \<Rightarrow> string \<Rightarrow>
   exc + pyval \<times> valid_converter option \<times> exc option" where
  "run_converters host convs interaction v = run_loop host interaction v convs (PyNone, None, None)"

section \<open>The multi-value parser and the variadic wrapper (\<open>converters.py\<close>)\<close>

text \<open>
  A Python \<open>dict\<close> keyed by the token text is an association list with distinct keys in
  insertion order: \<open>d[k] = v\<close> is \<open>AList.update k v d\<close>, which overwrites the entry of a
  key already present and appends a new key at the end; \<open>len(d)\<close> is \<open>length d\<close>.
\<close>

type_synonym success_converted = "(string \<times> pyval \<times> valid_converter option) list"
type_synonym failed_converted = "(string \<times> valid_converter option) list"
type_synonym value_errors = "(string \<times> exc) list"

record parse_result =
  argument :: string
  success :: success_converted
  failed :: failed_converted
  errors :: value_errors

definition converted :: "parse_result \<Rightarrow> pyval list" where
  "converted res = map (\<lambda>entry. fst (snd entry)) (success res)"

record string_parser =
  split_by :: string
  converters :: "valid_converter list"
  only_values :: bool
  fail_on_error :: bool

record variadic_args = string_parser +
  min_count :: "int option"
  max_count :: "int option"

text \<open>\<open>StringParser.__init__\<close> and \<open>VariadicArgs.__init__\<close>.\<close>

definition StringParser_init ::
  "library_table \<Rightarrow> string \<Rightarrow> valid_converter list \<Rightarrow> bool \<Rightarrow> bool \<Rightarrow> exc + string_parser" where
  "StringParser_init lib sep convs only fail =
     (case get_converters lib convs of
        Inl e \<Rightarrow> Inl e
      | Inr found \<Rightarrow>
          Inr \<lparr>split_by = sep, converters = found, only_values = only, fail_on_error = fail\<rparr>)"

text \<open>
  \<open>converters\<close> is one converter (\<open>Inl\<close>) or a list (\<open>Inr\<close>); \<open>fail_on_error\<close> keeps its
  default.
\<close>

definition VariadicArgs_init ::
  "library_table \<Rightarrow> int option \<Rightarrow> int option \<Rightarrow> valid_converter + valid_converter list \<Rightarrow>
   string \<Rightarrow> exc + variadic_args" where
  "VariadicArgs_init lib mn mx convs sep =
     (case get_converters lib (case convs of Inl single \<Rightarrow> [single] | Inr many \<Rightarrow> many) of
        Inl e \<Rightarrow> Inl e
      | Inr found \<Rightarrow>
          Inr \<lparr>split_by = sep, converters = found, only_values = False, fail_on_error = False,
               min_count = mn, max_count = mx\<rparr>)"

text \<open>The body of the loop of \<open>StringParser.transform\<close> (lines 177 to 186) on one token.\<close>

definition record_value ::
  "string \<Rightarrow> pyval \<times> valid_converter option \<times> exc option \<Rightarrow>
   success_converted \<times> failed_converted \<times> value_errors \<Rightarrow>
   success_converted \<times> failed_converted \<times> value_errors" where
  "record_value v outcome maps =
     (case outcome of (conv_value, converter, error) \<Rightarrow>
      case maps of (succ, fails, errs) \<Rightarrow>
        (if truthy conv_value then AList.update v (conv_value, converter) succ else succ,
         if truthy conv_value then fails else AList.update v converter fails,
         case error of None \<Rightarrow> errs | Some e \<Rightarrow> AList.update v e errs))"

text \<open>
  Each token is converted by its own awaited call of \<open>_run_converters\<close>, and what the
  host's converters do can change from one call to the next (a cache filled in between, a
  converter with state): \<open>world k\<close> is the host as it is while the token at position \<open>k\<close>
  of the split list is converted. A token that occurs twice is converted twice, and the
  two outcomes need not agree.
\<close>

type_synonym 'i world = "nat \<Rightarrow> 'i host"

text \<open>The loop of lines 176 to 186; \<open>k\<close> is the position of the next token.\<close>

fun parse_values ::
  "'i world \<Rightarrow> 'i \<Rightarrow> valid_converter list \<Rightarrow> string list \<Rightarrow> nat \<Rightarrow>
   success_converted \<times> failed_converted \<times> value_errors \<Rightarrow>
   exc + success_converted \<times> failed_converted \<times> value_errors" where
  "parse_values world interaction convs [] k maps = Inr maps"
| "parse_values world interaction convs (v # vs) k maps =
     (case run_converters (world k) convs interaction v of
        Inl e \<Rightarrow> Inl e
      | Inr outcome \<Rightarrow>
          parse_values world interaction convs vs (Suc k) (record_value v outcome maps))"

text \<open>What \<open>StringParser.transform\<close> returns: a \<open>ParseResult\<close> or a \<open>SequenceProxy\<close>.\<close>

datatype parsed = Result parse_result | Values "pyval list"

definition StringParser_transform ::
  "'i world \<Rightarrow> 'a string_parser_scheme \<Rightarrow> 'i \<Rightarrow> string \<Rightarrow> exc + parsed" where
  "StringParser_transform world self interaction arg =
     (case str_split arg (split_by self) of
        Inl e \<Rightarrow> Inl e
      | Inr vs \<Rightarrow>
          (case parse_values world interaction (converters self) vs 0 ([], [], []) of
             Inl e \<Rightarrow> Inl e
           | Inr (succ, fails, errs) \<Rightarrow>
               if succ = [] \<or> (fail_on_error self \<and> fails \<noteq> [])
               then Inl (ParsingFailed arg errs)
               else
                 (let res = \<lparr>argument = arg, success = succ, failed = fails, errors = errs\<rparr>
                  in if only_values self then Inr (Values (converted res))
                     else Inr (Result res))))"

text \<open>\<open>self.min and len(arguments) < self.min\<close>, and the same for \<open>max\<close>.\<close>

definition below_min :: "int option \<Rightarrow> nat \<Rightarrow> bool" where
  "below_min mn n = (case mn of None \<Rightarrow> False | Some k \<Rightarrow> k \<noteq> 0 \<and> int n < k)"

definition above_max :: "int option \<Rightarrow> nat \<Rightarrow> bool" where
  "above_max mx n = (case mx of None \<Rightarrow> False | Some k \<Rightarrow> k \<noteq> 0 \<and> int n > k)"

text \<open>The constructors of \<open>errors.py\<close>, lines 95 to 134.\<close>

definition InvalidVariadicArguments_init ::
  "string \<Rightarrow> string list \<Rightarrow> 'a variadic_args_scheme \<Rightarrow> exc" where
  "InvalidVariadicArguments_init arg received_arguments transformer =
     (let what =
            (if below_min (min_count transformer) (length received_arguments) then ''Too few''
             else if above_max (max_count transformer) (length received_arguments)
             then ''Too many''
             else ''Too few'')
      in InvalidVariadicArguments arg received_arguments
           (what @ '' arguments. Expected '' @ py_str_opt_int (min_count transformer) @ '' to ''
             @ py_str_opt_int (max_count transformer) @ '' arguments, got ''
             @ py_str_int (int (length received_arguments)) @ ''.''))"

definition VariadicArgsFailed_init :: "string \<Rightarrow> string list \<Rightarrow> value_errors \<Rightarrow> exc" where
  "VariadicArgsFailed_init arg received_arguments errs =
     VariadicArgsFailed arg received_arguments errs
       (py_str_int (int (length errs))
         @ '' arguments failed to be converted. Check the errors attribute.'')"

text \<open>
  \<open>VariadicArgs.transform\<close>. Only \<open>ParsingFailed\<close> is caught around the inherited
  \<open>transform\<close>. With \<open>only_values\<close> set the inherited method returns a \<open>SequenceProxy\<close>,
  which has no \<open>success\<close> attribute.
\<close>

definition VariadicArgs_transform ::
  "'i world \<Rightarrow> 'a variadic_args_scheme \<Rightarrow> 'i \<Rightarrow> string \<Rightarrow> exc + pyval list" where
  "VariadicArgs_transform world self interaction arg =
     (case str_split arg (split_by self) of
        Inl e \<Rightarrow> Inl e
      | Inr arguments \<Rightarrow>
          (case StringParser_transform world self interaction arg of
             Inl e \<Rightarrow>
               (case e of
                  ParsingFailed a errs \<Rightarrow> Inl (VariadicArgsFailed_init arg arguments errs)
                | _ \<Rightarrow> Inl e)
           | Inr r \<Rightarrow>
               if arguments = [] \<or> below_min (min_count self) (length arguments)
                  \<or> above_max (max_count self) (length arguments)
               then Inl (InvalidVariadicArguments_init arg arguments self)
               else
                 (case r of
                    Values _ \<Rightarrow>
                      Inl (AttributeError
                             ''SequenceProxy object has no attribute success'')
                  | Result res \<Rightarrow>
                      if success res = [] \<or> failed res \<noteq> []
                         \<or> length (success res) \<noteq> length arguments
                      then Inl (VariadicArgsFailed_init arg arguments (errors res))
                      else Inr (converted res))))"

section \<open>Notions used to state the properties\<close>

text \<open>
  The part of a step of \<open>_get_converters\<close> that depends on the item alone: the union test
  of line 78 first, the table lookups otherwise.
\<close>

definition expand_item :: "library_table \<Rightarrow> valid_converter \<Rightarrow> exc + valid_converter list" where
  "expand_item lib item =
     (if unpack_union item \<noteq> [] then
        (if list_all mentionable_member (unpack_union item)
         then Inr [commands_MemberConverter, commands_RoleConverter, commands_UserConverter]
         else get_converters lib (unpack_union item))
      else convert_item lib item)"

text \<open>
  A converter fails on a value when it returns a falsy result or raises the error kind
  its branch of \<open>_run_converters\<close> catches; \<open>caught\<close> is that error.
\<close>

definition fails :: "'i host \<Rightarrow> 'i \<Rightarrow> string \<Rightarrow> valid_converter \<Rightarrow> bool" where
  "fails host interaction v converter =
     (case invoke host interaction converter v of
        Returned r \<Rightarrow> \<not> truthy r
      | Raised e \<Rightarrow> expected_error converter e)"

definition caught :: "'i host \<Rightarrow> 'i \<Rightarrow> string \<Rightarrow> valid_converter \<Rightarrow> exc option" where
  "caught host interaction v converter =
     (case invoke host interaction converter v of
        Returned r \<Rightarrow> None
      | Raised e \<Rightarrow> if expected_error converter e then Some e else None)"

definition returned :: "'i host \<Rightarrow> 'i \<Rightarrow> string \<Rightarrow> valid_converter \<Rightarrow> pyval option" where
  "returned host interaction v converter =
     (case invoke host interaction converter v of
        Returned r \<Rightarrow> Some r
      | Raised e \<Rightarrow> None)"

text \<open>The expected errors the converters of a list raise on a value, in list order.\<close>

definition caught_errors :: "'i host \<Rightarrow> 'i \<Rightarrow> string \<Rightarrow> valid_converter list \<Rightarrow> exc list" where
  "caught_errors host interaction v convs = List.map_filter (caught host interaction v) convs"

definition returned_values :: "'i host \<Rightarrow> 'i \<Rightarrow> string \<Rightarrow> valid_converter list \<Rightarrow> pyval list" where
  "returned_values host interaction v convs = List.map_filter (returned host interaction v) convs"

text \<open>The most recent of them, after a starting value.\<close>

definition last_caught ::
  "'i host \<Rightarrow> 'i \<Rightarrow> string \<Rightarrow> valid_converter list \<Rightarrow> exc option \<Rightarrow> exc option" where
  "last_caught host interaction v convs start =
     last (start # map Some (caught_errors host interaction v convs))"

definition last_returned ::
  "'i host \<Rightarrow> 'i \<Rightarrow> string \<Rightarrow> valid_converter list \<Rightarrow> pyval \<Rightarrow> pyval" where
  "last_returned host interaction v convs start =
     last (start # returned_values host interaction v convs)"

text \<open>Whether the resolver converts a token, and the error it reports for it.\<close>

definition converts :: "'i host \<Rightarrow> valid_converter list \<Rightarrow> 'i \<Rightarrow> string \<Rightarrow> bool" where
  "converts host convs interaction v =
     (case run_converters host convs interaction v of
        Inl e \<Rightarrow> False
      | Inr (conv_value, converter, error) \<Rightarrow> truthy conv_value)"

definition error_of :: "'i host \<Rightarrow> valid_converter list \<Rightarrow> 'i \<Rightarrow> string \<Rightarrow> exc option" where
  "error_of host convs interaction v =
     (case run_converters host convs interaction v of
        Inl e \<Rightarrow> None
      | Inr (conv_value, converter, error) \<Rightarrow> error)"

definition keys :: "('k \<times> 'v) list \<Rightarrow> 'k set" where
  "keys d = fst ` set d"

text \<open>
  A converter raises an error outside the kind its branch catches: the error leaves
  \<open>_run_converters\<close>.
\<close>

definition raises_unexpected :: "'i host \<Rightarrow> 'i \<Rightarrow> string \<Rightarrow> valid_converter \<Rightarrow> bool" where
  "raises_unexpected host interaction v converter =
     (case invoke host interaction converter v of
        Returned r \<Rightarrow> False
      | Raised e \<Rightarrow> \<not> expected_error converter e)"

subsection \<open>A library table and a host to run the code on\<close>

text \<open>
  A table holding, for the keys named here, the option types the host library registers
  for them, and a host in which no member is found, the user lookup breaks with an error
  that is no \<open>BadArgument\<close>, and a role is always found.
\<close>

definition example_library :: library_table where
  "example_library =
     map_of [(builtin_str, OptString), (builtin_int, OptInteger), (builtin_float, OptNumber),
             (builtin_bool, OptBoolean), (discord_User, OptUser), (discord_Member, OptUser),
             (discord_Role, OptRole)]"

fun example_host :: "unit host" where
  "example_host interaction commands_MemberConverter v =
     Raised (BadArgument ''Member not found.'')"
| "example_host interaction commands_UserConverter v =
     Raised (OtherException ''HTTPException'')"
| "example_host interaction commands_RoleConverter v = Returned (PyObj 0)"
| "example_host interaction converter v = Raised (TypeError (OtherTypeError ''not callable''))"

text \<open>
  A host in which the member is found, a world that never changes, and a world in which
  the member is not found while the first token is converted and is found afterwards.
\<close>

fun found_host :: "unit host" where
  "found_host interaction commands_MemberConverter v = Returned (PyObj 1)"
| "found_host interaction converter v = example_host interaction converter v"

definition example_world :: "unit world" where
  "example_world k = example_host"

definition changing_world :: "unit world" where
  "changing_world k = (if k = 0 then example_host else found_host)"

text \<open>A parser over integers, and what it returns on "1 x".\<close>

definition example_parser :: string_parser where
  "example_parser =
     \<lparr>split_by = '' '', converters = [IntegerConverter], only_values = False,
      fail_on_error = False\<rparr>"

definition example_result :: parse_result where
  "example_result =
     \<lparr>argument = ''1 x'', success = [(''1'', PyInt 1, Some IntegerConverter)],
      failed = [(''x'', Some IntegerConverter)], errors = [(''x'', NotAnInteger ''x'')]\<rparr>"

text \<open>A parser over members, and what it returns on "a a" in the changing world.\<close>

definition member_parser :: string_parser where
  "member_parser =
     \<lparr>split_by = '' '', converters = [commands_MemberConverter], only_values = False,
      fail_on_error = False\<rparr>"

definition member_result :: parse_result where
  "member_result =
     \<lparr>argument = ''a a'', success = [(''a'', PyObj 1, Some commands_MemberConverter)],
      failed = [(''a'', Some commands_MemberConverter)],
      errors = [(''a'', BadArgument ''Member not found.'')]\<rparr>"



section \<open>The normalizer: unions\<close>

lemma get_converters_Cons:
  "get_converters lib (item # rest) =
     (case expand_item lib item of
        Inl e \<Rightarrow> Inl e
      | Inr found \<Rightarrow>
          (case get_converters lib rest of
             Inl e \<Rightarrow> Inl e
           | Inr others \<Rightarrow> Inr (found @ others)))"
proof (cases item)
  case (UnionOf us)
  then show ?thesis
    by (cases us) (simp_all add: expand_item_def unpack_union_def)
qed (simp_all add: expand_item_def unpack_union_def)

lemma get_converters_append:
  "get_converters lib (xs @ ys) =
     (case get_converters lib xs of
        Inl e \<Rightarrow> Inl e
      | Inr found \<Rightarrow>
          (case get_converters lib ys of
             Inl e \<Rightarrow> Inl e
           | Inr others \<Rightarrow> Inr (found @ others)))"
proof (induction xs)
  case Nil
  show ?case by (simp split: sum.splits)
next
  case (Cons x xs)
  show ?case
    unfolding append_Cons get_converters_Cons Cons.IH
    by (simp split: sum.splits)
qed

lemma expand_mentionable:
  assumes "us \<noteq> []" and "set us \<subseteq> {discord_Member, discord_User, discord_Role}"
  shows "expand_item lib (UnionOf us) =
           Inr [commands_MemberConverter, commands_RoleConverter, commands_UserConverter]"
proof -
  have "list_all mentionable_member us"
    using assms(2) by (auto simp: list_all_iff mentionable_member_def)
  then show ?thesis
    using assms(1) by (simp add: expand_item_def unpack_union_def)
qed

lemma get_converters_mentionable_Cons:
  assumes "us \<noteq> []" and "set us \<subseteq> {discord_Member, discord_User, discord_Role}"
  shows "get_converters lib (UnionOf us # rest) =
           (case get_converters lib rest of
              Inl e \<Rightarrow> Inl e
            | Inr others \<Rightarrow>
                Inr ([commands_MemberConverter, commands_RoleConverter, commands_UserConverter]
                       @ others))"
  unfolding get_converters_Cons expand_mentionable [OF assms] by simp

text \<open>
  C8. A union of exactly the member and role types, in either order and anywhere in the
  input list, contributes exactly the member, role and user converters, in that order:
  the two orders give the same result, alone the union gives the three converters, and
  between two parts that normalize it stands between their results.
\<close>

theorem member_role_union_expands:
  "get_converters lib (before @ UnionOf [discord_Member, discord_Role] # rest) =
     get_converters lib (before @ UnionOf [discord_Role, discord_Member] # rest)
   \<and> get_converters lib [UnionOf [discord_Member, discord_Role]] =
       Inr [commands_MemberConverter, commands_RoleConverter, commands_UserConverter]
   \<and> get_converters lib [UnionOf [discord_Role, discord_Member]] =
       Inr [commands_MemberConverter, commands_RoleConverter, commands_UserConverter]
   \<and> (\<forall>found others.
         get_converters lib before = Inr found \<and> get_converters lib rest = Inr others \<longrightarrow>
         get_converters lib (before @ UnionOf [discord_Member, discord_Role] # rest) =
           Inr (found @ [commands_MemberConverter, commands_RoleConverter, commands_UserConverter]
                  @ others))"
proof -
  have mr: "get_converters lib (UnionOf [discord_Member, discord_Role] # xs) =
           (case get_converters lib xs of
              Inl e \<Rightarrow> Inl e
            | Inr others \<Rightarrow>
                Inr ([commands_MemberConverter, commands_RoleConverter, commands_UserConverter]
                       @ others))" for xs
    by (rule get_converters_mentionable_Cons) simp_all
  have rm: "get_converters lib (UnionOf [discord_Role, discord_Member] # xs) =
           (case get_converters lib xs of
              Inl e \<Rightarrow> Inl e
            | Inr others \<Rightarrow>
                Inr ([commands_MemberConverter, commands_RoleConverter, commands_UserConverter]
                       @ others))" for xs
    by (rule get_converters_mentionable_Cons) simp_all
  show ?thesis
    unfolding get_converters_append mr rm by simp
qed

theorem member_role_union_expands_witness:
  "get_converters example_library [builtin_int] = Inr [IntegerConverter]
   \<and> get_converters example_library [builtin_str] = Inr [StringConverter]
   \<and> get_converters example_library
       [builtin_int, UnionOf [discord_Member, discord_Role], builtin_str] =
       Inr [IntegerConverter, commands_MemberConverter, commands_RoleConverter,
            commands_UserConverter, StringConverter]
   \<and> get_converters example_library
       [builtin_int, UnionOf [discord_Role, discord_Member], builtin_str] =
       Inr [IntegerConverter, commands_MemberConverter, commands_RoleConverter,
            commands_UserConverter, StringConverter]"
proof -
  have a: "get_converters example_library [builtin_int] = Inr [IntegerConverter]"
    by (simp add: convert_item_def BUILT_IN_TRANSFORMERS_def example_library_def)
  have b: "get_converters example_library [builtin_str] = Inr [StringConverter]"
    by (simp add: convert_item_def BUILT_IN_TRANSFORMERS_def example_library_def)
  note t = member_role_union_expands [of example_library "[builtin_int]" "[builtin_str]"]
  from t have same:
    "get_converters example_library
       ([builtin_int] @ UnionOf [discord_Member, discord_Role] # [builtin_str]) =
     get_converters example_library
       ([builtin_int] @ UnionOf [discord_Role, discord_Member] # [builtin_str])"
    by (rule conjunct1)
  from t a b have c:
    "get_converters example_library
       ([builtin_int] @ UnionOf [discord_Member, discord_Role] # [builtin_str]) =
     Inr ([IntegerConverter]
          @ [commands_MemberConverter, commands_RoleConverter, commands_UserConverter]
          @ [StringConverter])"
    by blast
  have d:
    "get_converters example_library
       ([builtin_int] @ UnionOf [discord_Role, discord_Member] # [builtin_str]) =
     Inr ([IntegerConverter]
          @ [commands_MemberConverter, commands_RoleConverter, commands_UserConverter]
          @ [StringConverter])"
    using c same by (simp only:)
  from c have c': "get_converters example_library
       [builtin_int, UnionOf [discord_Member, discord_Role], builtin_str] =
       Inr [IntegerConverter, commands_MemberConverter, commands_RoleConverter,
            commands_UserConverter, StringConverter]"
    by (simp only: append_Cons append_Nil)
  from d have d': "get_converters example_library
       [builtin_int, UnionOf [discord_Role, discord_Member], builtin_str] =
       Inr [IntegerConverter, commands_MemberConverter, commands_RoleConverter,
            commands_UserConverter, StringConverter]"
    by (simp only: append_Cons append_Nil)
  show ?thesis
    using a b c' d' by blast
qed

text \<open>
  C10. The special case covers every union whose members are all among the member, user
  and role types: such a union alone normalizes to the member, role and user converters,
  so the role converter is there also when the role type is not a member of the union.
\<close>

theorem mentionable_union_is_broad:
  assumes "us \<noteq> []" and "set us \<subseteq> {discord_Member, discord_User, discord_Role}"
  shows "get_converters lib [UnionOf us] =
           Inr [commands_MemberConverter, commands_RoleConverter, commands_UserConverter]"
  using expand_mentionable [OF assms, of lib] by (simp add: get_converters_Cons)

theorem mentionable_union_is_broad_witness:
  "[discord_Member, discord_User] \<noteq> []
   \<and> set [discord_Member, discord_User] \<subseteq> {discord_Member, discord_User, discord_Role}
   \<and> discord_Role \<notin> set [discord_Member, discord_User]
   \<and> get_converters example_library [UnionOf [discord_Member, discord_User]] =
       Inr [commands_MemberConverter, commands_RoleConverter, commands_UserConverter]"
  using mentionable_union_is_broad [of "[discord_Member, discord_User]" example_library]
  by simp

section \<open>The variadic wrapper on concrete inputs\<close>

lemmas transform_defs =
  VariadicArgs_transform_def StringParser_transform_def str_split_def run_converters_def
  record_value_def converted_def below_min_def above_max_def InvalidVariadicArguments_init_def
  VariadicArgsFailed_init_def py_str_int_def py_int_def strip_def is_space_def digit_val_def
  expected_error_def custom_is_subclass_def example_world_def changing_world_def

lemma init_str:
  assumes "lib builtin_str = Some OptString"
  shows "VariadicArgs_init lib mn mx (Inl builtin_str) sep =
     Inr \<lparr>split_by = sep, converters = [StringConverter], only_values = False,
          fail_on_error = False, min_count = mn, max_count = mx\<rparr>"
  using assms by (simp add: VariadicArgs_init_def convert_item_def BUILT_IN_TRANSFORMERS_def)

lemma init_int:
  assumes "lib builtin_int = Some OptInteger"
  shows "VariadicArgs_init lib mn mx (Inr [builtin_int]) sep =
     Inr \<lparr>split_by = sep, converters = [IntegerConverter], only_values = False,
          fail_on_error = False, min_count = mn, max_count = mx\<rparr>"
  using assms by (simp add: VariadicArgs_init_def convert_item_def BUILT_IN_TRANSFORMERS_def)

text \<open>
  C5. With the library's string entry for \<open>str\<close>, the wrapper built with min=2, max=3, the
  default converter \<open>str\<close> and the space delimiter returns the two converted values on
  "a b", and raises \<open>InvalidVariadicArguments\<close> with a "Too few" message on "a" and with a
  "Too many" message on "a b c d".
\<close>

theorem variadic_min2_max3:
  assumes "lib builtin_str = Some OptString"
  shows "\<exists>self. VariadicArgs_init lib (Some 2) (Some 3) (Inl builtin_str) '' '' = Inr self
     \<and> VariadicArgs_transform world self interaction ''a b'' = Inr [PyStr ''a'', PyStr ''b'']
     \<and> VariadicArgs_transform world self interaction ''a'' =
         Inl (InvalidVariadicArguments ''a'' [''a'']
                ''Too few arguments. Expected 2 to 3 arguments, got 1.'')
     \<and> VariadicArgs_transform world self interaction ''a b c d'' =
         Inl (InvalidVariadicArguments ''a b c d'' [''a'', ''b'', ''c'', ''d'']
                ''Too many arguments. Expected 2 to 3 arguments, got 4.'')"
  unfolding init_str [of lib, OF assms]
  by (simp add: transform_defs)

theorem variadic_min2_max3_witness:
  "example_library builtin_str = Some OptString
   \<and> (\<exists>self. VariadicArgs_init example_library (Some 2) (Some 3) (Inl builtin_str) '' '' = Inr self
     \<and> VariadicArgs_transform example_world self () ''a b'' = Inr [PyStr ''a'', PyStr ''b'']
     \<and> VariadicArgs_transform example_world self () ''a'' =
         Inl (InvalidVariadicArguments ''a'' [''a'']
                ''Too few arguments. Expected 2 to 3 arguments, got 1.'')
     \<and> VariadicArgs_transform example_world self () ''a b c d'' =
         Inl (InvalidVariadicArguments ''a b c d'' [''a'', ''b'', ''c'', ''d'']
                ''Too many arguments. Expected 2 to 3 arguments, got 4.''))"
proof -
  have h: "example_library builtin_str = Some OptString"
    by (simp add: example_library_def)
  show ?thesis
    using h variadic_min2_max3 [of example_library example_world "()", OF h] by simp
qed

text \<open>
  C6. With the library's integer entry for \<open>int\<close>, the wrapper built with converters=[int]
  and no bounds raises \<open>VariadicArgsFailed\<close> on "1 2 x", and the errors mapping of that
  error has the single entry of key "x".
\<close>

theorem variadic_int_one_bad_token:
  assumes "lib builtin_int = Some OptInteger"
  shows "\<exists>self. VariadicArgs_init lib None None (Inr [builtin_int]) '' '' = Inr self
     \<and> VariadicArgs_transform world self interaction ''1 2 x'' =
         Inl (VariadicArgsFailed ''1 2 x'' [''1'', ''2'', ''x''] [(''x'', NotAnInteger ''x'')]
                ''1 arguments failed to be converted. Check the errors attribute.'')"
  unfolding init_int [of lib, OF assms]
  by (simp add: transform_defs)

theorem variadic_int_one_bad_token_witness:
  "example_library builtin_int = Some OptInteger
   \<and> (\<exists>self. VariadicArgs_init example_library None None (Inr [builtin_int]) '' '' = Inr self
     \<and> VariadicArgs_transform example_world self () ''1 2 x'' =
         Inl (VariadicArgsFailed ''1 2 x'' [''1'', ''2'', ''x''] [(''x'', NotAnInteger ''x'')]
                ''1 arguments failed to be converted. Check the errors attribute.''))"
proof -
  have h: "example_library builtin_int = Some OptInteger"
    by (simp add: example_library_def)
  show ?thesis
    using h variadic_int_one_bad_token [of example_library example_world "()", OF h] by simp
qed

section \<open>The single-value resolver: what it returns\<close>

lemmas eval_defs =
  run_converters_def fails_def caught_def returned_def caught_errors_def returned_values_def
  last_caught_def last_returned_def expected_error_def custom_is_subclass_def
  py_int_def strip_def is_space_def digit_val_def map_filter_simps
  converts_def error_of_def raises_unexpected_def keys_def example_world_def
  changing_world_def

lemma run_loop_break:
  "truthy cv \<Longrightarrow> run_loop host i v cs (cv, u, e) = Inr (cv, u, e)"
  by (cases cs) simp_all

lemma run_loop_append:
  "run_loop host i v (xs @ ys) st =
     (case run_loop host i v xs st of
        Inl e \<Rightarrow> Inl e
      | Inr st' \<Rightarrow> run_loop host i v ys st')"
proof (induction xs arbitrary: st)
  case Nil
  show ?case by simp
next
  case (Cons x xs)
  obtain cv u e where st: "st = (cv, u, e)" by (cases st)
  show ?case
    unfolding st append_Cons
    by (simp add: Cons.IH run_loop_break split: outcome.splits)
qed

lemma run_loop_all_fail:
  assumes "\<forall>c\<in>set cs. fails host i v c" and "\<not> truthy cv"
  shows "run_loop host i v cs (cv, used, err) =
           Inr (last_returned host i v cs cv, last (used # map Some cs),
                last_caught host i v cs err)
         \<and> \<not> truthy (last_returned host i v cs cv)"
  using assms
proof (induction cs arbitrary: cv used err)
  case Nil
  then show ?case
    by (simp add: last_returned_def last_caught_def returned_values_def caught_errors_def)
next
  case (Cons c cs)
  from Cons.prems have f: "fails host i v c" and rest: "\<forall>c\<in>set cs. fails host i v c"
    by simp_all
  show ?case
  proof (cases "invoke host i c v")
    case (Returned r)
    with f have nt: "\<not> truthy r" by (simp add: fails_def)
    from Cons.IH [OF rest nt, of "Some c" err] Returned Cons.prems(2)
    show ?thesis
      by (simp add: last_returned_def last_caught_def returned_values_def caught_errors_def
            returned_def caught_def map_filter_simps)
  next
    case (Raised e)
    with f have ex: "expected_error c e" by (simp add: fails_def)
    from Cons.IH [OF rest Cons.prems(2), of "Some c" "Some e"] Raised ex Cons.prems(2)
    show ?thesis
      by (simp add: last_returned_def last_caught_def returned_values_def caught_errors_def
            returned_def caught_def map_filter_simps)
  qed
qed

lemma run_loop_error_origin:
  assumes "run_loop host i v cs (cv, used, err) = Inr (cv', used', Some e)"
  shows "err = Some e \<or> (\<exists>c\<in>set cs. invoke host i c v = Raised e \<and> expected_error c e)"
  using assms
proof (induction cs arbitrary: cv used err)
  case Nil
  then show ?case by simp
next
  case (Cons c cs)
  show ?case
  proof (cases "truthy cv")
    case True
    with Cons.prems show ?thesis by simp
  next
    case False
    show ?thesis
    proof (cases "invoke host i c v")
      case (Returned r)
      with False Cons.prems
      have "run_loop host i v cs (r, Some c, err) = Inr (cv', used', Some e)" by simp
      from Cons.IH [OF this] show ?thesis by auto
    next
      case (Raised x)
      with False Cons.prems have ex: "expected_error c x"
        and run: "run_loop host i v cs (cv, Some c, Some x) = Inr (cv', used', Some e)"
        by (simp_all split: if_splits)
      from Cons.IH [OF run] Raised ex show ?thesis by auto
    qed
  qed
qed

text \<open>
  C1 (amended). When every converter before the first successful one fails (returns a falsy
  value or raises its expected error kind), the resolver stops at the successful converter
  and returns its value and that converter; the error component is the error most
  recently caught from an earlier converter, and \<open>None\<close> only when no earlier
  converter raised.
\<close>

theorem resolver_first_success:
  assumes "\<forall>p\<in>set before. fails host i v p"
    and "invoke host i c v = Returned r" and "truthy r"
  shows "run_converters host (before @ c # rest) i v =
           Inr (r, Some c, last_caught host i v before None)
         \<and> (caught_errors host i v before = [] \<longrightarrow>
              run_converters host (before @ c # rest) i v = Inr (r, Some c, None))"
proof -
  have nt: "\<not> truthy PyNone" by simp
  from run_loop_all_fail [OF assms(1) nt, of None None]
  have pre: "run_loop host i v before (PyNone, None, None) =
               Inr (last_returned host i v before PyNone, last (None # map Some before),
                    last_caught host i v before None)"
    and falsy: "\<not> truthy (last_returned host i v before PyNone)"
    by simp_all
  have "run_converters host (before @ c # rest) i v =
          Inr (r, Some c, last_caught host i v before None)"
    unfolding run_converters_def run_loop_append pre
    using falsy assms(2,3) by (simp add: run_loop_break)
  then show ?thesis
    by (simp add: last_caught_def)
qed

theorem resolver_first_success_witness:
  "fails example_host () ''x'' IntegerConverter
   \<and> invoke example_host () StringConverter ''x'' = Returned (PyStr ''x'')
   \<and> truthy (PyStr ''x'')
   \<and> last_caught example_host () ''x'' [IntegerConverter] None = Some (NotAnInteger ''x'')
   \<and> run_converters example_host ([IntegerConverter] @ StringConverter # []) () ''x'' =
       Inr (PyStr ''x'', Some StringConverter, Some (NotAnInteger ''x''))"
proof -
  have h1: "\<forall>p\<in>set [IntegerConverter]. fails example_host () ''x'' p"
    by (simp add: eval_defs)
  have h2: "invoke example_host () StringConverter ''x'' = Returned (PyStr ''x'')" by simp
  have h3: "truthy (PyStr ''x'')" by simp
  have h4: "last_caught example_host () ''x'' [IntegerConverter] None = Some (NotAnInteger ''x'')"
    by (simp add: eval_defs)
  from resolver_first_success [OF h1 h2 h3, of "[]"]
  have "run_converters example_host ([IntegerConverter] @ StringConverter # []) () ''x'' =
          Inr (PyStr ''x'', Some StringConverter,
               last_caught example_host () ''x'' [IntegerConverter] None)"
    by (rule conjunct1)
  moreover have "fails example_host () ''x'' IntegerConverter"
    using h1 by simp
  ultimately show ?thesis
    using h2 h3 h4 by (simp only:)
qed

text \<open>
  The claim as stated fails: on "x" the integer converter raises \<open>NotAnInteger\<close>, the
  string converter then succeeds, and the error stays in the returned triple.
\<close>

theorem resolver_error_not_cleared_counterexample:
  "fails example_host () ''x'' IntegerConverter
   \<and> invoke example_host () StringConverter ''x'' = Returned (PyStr ''x'')
   \<and> truthy (PyStr ''x'')
   \<and> run_converters example_host [IntegerConverter, StringConverter] () ''x'' =
       Inr (PyStr ''x'', Some StringConverter, Some (NotAnInteger ''x''))
   \<and> run_converters example_host [IntegerConverter, StringConverter] () ''x'' \<noteq>
       Inr (PyStr ''x'', Some StringConverter, None)"
  by (simp add: eval_defs)

text \<open>
  C2 (amended). When every converter of a non-empty list fails, the resolver returns the
  falsy value most recently returned by a converter (\<open>None\<close> when none returned one), the
  last converter of the list, and the error most recently caught (\<open>None\<close> when none
  raised).
\<close>

theorem resolver_all_fail:
  assumes "convs \<noteq> []" and "\<forall>c\<in>set convs. fails host i v c"
  shows "run_converters host convs i v =
           Inr (last_returned host i v convs PyNone, Some (last convs),
                last_caught host i v convs None)
         \<and> \<not> truthy (last_returned host i v convs PyNone)
         \<and> (returned_values host i v convs = [] \<longrightarrow>
              last_returned host i v convs PyNone = PyNone)"
proof -
  have nt: "\<not> truthy PyNone" by simp
  have l: "last (None # map Some convs) = Some (last convs)"
    using assms(1) by (simp add: last_map)
  from run_loop_all_fail [OF assms(2) nt, of None None] l
  show ?thesis
    by (simp add: run_converters_def last_returned_def)
qed

theorem resolver_all_fail_witness:
  "[IntegerConverter, commands_MemberConverter] \<noteq> []
   \<and> fails example_host () ''x'' IntegerConverter
   \<and> fails example_host () ''x'' commands_MemberConverter
   \<and> run_converters example_host [IntegerConverter, commands_MemberConverter] () ''x'' =
       Inr (PyNone, Some commands_MemberConverter, Some (BadArgument ''Member not found.''))"
proof -
  have h1: "[IntegerConverter, commands_MemberConverter] \<noteq> []" by simp
  have h2: "\<forall>c\<in>set [IntegerConverter, commands_MemberConverter]. fails example_host () ''x'' c"
    by (simp add: eval_defs)
  have h3: "last_returned example_host () ''x'' [IntegerConverter, commands_MemberConverter]
              PyNone = PyNone"
    by (simp add: eval_defs)
  have h4: "last_caught example_host () ''x'' [IntegerConverter, commands_MemberConverter]
              None = Some (BadArgument ''Member not found.'')"
    by (simp add: eval_defs)
  have h5: "last [IntegerConverter, commands_MemberConverter] = commands_MemberConverter"
    by simp
  from resolver_all_fail [OF h1 h2]
  have "run_converters example_host [IntegerConverter, commands_MemberConverter] () ''x'' =
          Inr (last_returned example_host () ''x'' [IntegerConverter, commands_MemberConverter]
                 PyNone,
               Some (last [IntegerConverter, commands_MemberConverter]),
               last_caught example_host () ''x'' [IntegerConverter, commands_MemberConverter]
                 None)"
    by (rule conjunct1)
  then have "run_converters example_host [IntegerConverter, commands_MemberConverter] () ''x'' =
       Inr (PyNone, Some commands_MemberConverter, Some (BadArgument ''Member not found.''))"
    by (simp only: h3 h4 h5)
  moreover have "fails example_host () ''x'' IntegerConverter"
    and "fails example_host () ''x'' commands_MemberConverter"
    using h2 by simp_all
  ultimately show ?thesis
    using h1 by blast
qed

text \<open>
  The claim as stated fails: on "0" the integer converter returns the falsy value 0, and
  the value component is 0, not \<open>None\<close>.
\<close>

theorem resolver_falsy_value_counterexample:
  "fails example_host () ''0'' IntegerConverter
   \<and> run_converters example_host [IntegerConverter] () ''0'' =
       Inr (PyInt 0, Some IntegerConverter, None)
   \<and> PyInt 0 \<noteq> PyNone"
  by (simp add: eval_defs)

section \<open>The multi-value parser: the three mappings\<close>

lemma run_loop_total:
  assumes "\<forall>c\<in>set cs. \<not> raises_unexpected host i v c"
  shows "\<exists>out. run_loop host i v cs st = Inr out"
  using assms
proof (induction cs arbitrary: st)
  case Nil
  show ?case by (cases st) simp
next
  case (Cons c cs)
  obtain cv u e where st: "st = (cv, u, e)" by (cases st)
  from Cons.prems have c: "\<not> raises_unexpected host i v c"
    and rest: "\<forall>c\<in>set cs. \<not> raises_unexpected host i v c" by simp_all
  show ?case
  proof (cases "invoke host i c v")
    case (Returned r)
    with Cons.IH [OF rest] show ?thesis by (simp add: st)
  next
    case (Raised x)
    with c have "expected_error c x" by (simp add: raises_unexpected_def)
    with Raised Cons.IH [OF rest] show ?thesis by (simp add: st)
  qed
qed

lemma in_enumerate_0: "(k, v) \<in> set (enumerate 0 vs) \<longleftrightarrow> k < length vs \<and> vs ! k = v"
  by (auto simp: in_set_enumerate_eq)

lemma parse_values_total:
  assumes "\<forall>p\<in>set (enumerate n vs). \<exists>out. run_converters (w (fst p)) cs i (snd p) = Inr out"
  shows "\<exists>res. parse_values w i cs vs n maps = Inr res"
  using assms
proof (induction vs arbitrary: n maps)
  case Nil
  show ?case by (cases maps) simp
next
  case (Cons v vs)
  from Cons.prems obtain out where out: "run_converters (w n) cs i v = Inr out" by auto
  from Cons.prems
  have "\<forall>p\<in>set (enumerate (Suc n) vs). \<exists>out. run_converters (w (fst p)) cs i (snd p) = Inr out"
    by simp
  from Cons.IH [OF this] out show ?case by simp
qed

lemma keys_update: "keys (AList.update k v d) = insert k (keys d)"
  by (simp add: keys_def dom_update)


lemma record_value_facts:
  assumes "run_converters host cs i v = Inr out"
    and "record_value v out (s, f, e) = (s1, f1, e1)"
  shows "keys s1 = (if converts host cs i v then insert v (keys s) else keys s)"
    and "keys f1 = (if converts host cs i v then keys f else insert v (keys f))"
    and "keys e1 = (if error_of host cs i v \<noteq> None then insert v (keys e) else keys e)"
    and "distinct (map fst s) \<Longrightarrow> distinct (map fst s1)"
    and "map_of e1 w = (if w = v \<and> error_of host cs i v \<noteq> None then error_of host cs i v
                        else map_of e w)"
proof -
  obtain cv u err where out: "out = (cv, u, err)" by (cases out)
  from assms(1) have c: "converts host cs i v = truthy cv" and eo: "error_of host cs i v = err"
    by (simp_all add: converts_def error_of_def out)
  from assms(2) have s1: "s1 = (if truthy cv then AList.update v (cv, u) s else s)"
    and f1: "f1 = (if truthy cv then f else AList.update v u f)"
    and e1: "e1 = (case err of None \<Rightarrow> e | Some x \<Rightarrow> AList.update v x e)"
    by (simp_all add: record_value_def out)
  show "keys s1 = (if converts host cs i v then insert v (keys s) else keys s)"
    by (simp add: s1 c keys_update)
  show "keys f1 = (if converts host cs i v then keys f else insert v (keys f))"
    by (simp add: f1 c keys_update)
  show "keys e1 = (if error_of host cs i v \<noteq> None then insert v (keys e) else keys e)"
    by (cases err) (simp_all add: e1 eo keys_update)
  show "distinct (map fst s) \<Longrightarrow> distinct (map fst s1)"
    by (simp add: s1 distinct_update)
  show "map_of e1 w = (if w = v \<and> error_of host cs i v \<noteq> None then error_of host cs i v
                        else map_of e w)"
    by (cases err) (simp_all add: e1 eo update_conv')
qed

lemma parse_values_facts:
  assumes "parse_values w i cs vs n (s, f, e) = Inr (s', f', e')"
  shows "keys s' = keys s \<union> {v. \<exists>k. (k, v) \<in> set (enumerate n vs) \<and> converts (w k) cs i v}
       \<and> keys f' = keys f \<union> {v. \<exists>k. (k, v) \<in> set (enumerate n vs) \<and> \<not> converts (w k) cs i v}
       \<and> keys e' = keys e
            \<union> {v. \<exists>k. (k, v) \<in> set (enumerate n vs) \<and> error_of (w k) cs i v \<noteq> None}
       \<and> (distinct (map fst s) \<longrightarrow> distinct (map fst s'))"
  using assms
proof (induction vs arbitrary: n s f e)
  case Nil
  then show ?case by simp
next
  case (Cons v vs)
  from Cons.prems obtain out where out: "run_converters (w n) cs i v = Inr out"
    and run: "parse_values w i cs vs (Suc n) (record_value v out (s, f, e)) = Inr (s', f', e')"
    by (auto split: sum.splits)
  obtain s1 f1 e1 where rv: "record_value v out (s, f, e) = (s1, f1, e1)"
    by (cases "record_value v out (s, f, e)")
  note step = record_value_facts [OF out rv]
  from run rv have "parse_values w i cs vs (Suc n) (s1, f1, e1) = Inr (s', f', e')" by simp
  from Cons.IH [OF this]
  have ks: "keys s' = keys s1
              \<union> {v. \<exists>k. (k, v) \<in> set (enumerate (Suc n) vs) \<and> converts (w k) cs i v}"
    and kf: "keys f' = keys f1
              \<union> {v. \<exists>k. (k, v) \<in> set (enumerate (Suc n) vs) \<and> \<not> converts (w k) cs i v}"
    and ke: "keys e' = keys e1
              \<union> {v. \<exists>k. (k, v) \<in> set (enumerate (Suc n) vs) \<and> error_of (w k) cs i v \<noteq> None}"
    and di: "distinct (map fst s1) \<longrightarrow> distinct (map fst s')"
    by simp_all
  have 1: "keys s' = keys s
             \<union> {u. \<exists>k. (k, u) \<in> set (enumerate n (v # vs)) \<and> converts (w k) cs i u}"
    unfolding ks step(1) by auto
  have 2: "keys f' = keys f
             \<union> {u. \<exists>k. (k, u) \<in> set (enumerate n (v # vs)) \<and> \<not> converts (w k) cs i u}"
    unfolding kf step(2) by auto
  have 3: "keys e' = keys e
             \<union> {u. \<exists>k. (k, u) \<in> set (enumerate n (v # vs)) \<and> error_of (w k) cs i u \<noteq> None}"
    unfolding ke step(3) by auto
  have 4: "distinct (map fst s) \<longrightarrow> distinct (map fst s')"
    using di step(4) by blast
  from 1 2 3 4 show ?case by blast
qed

lemma parse_values_error_kept:
  assumes "parse_values w i cs vs n (s, f, e) = Inr (s', f', e')" and "v \<notin> set vs"
  shows "map_of e' v = map_of e v"
  using assms
proof (induction vs arbitrary: n s f e)
  case Nil
  then show ?case by simp
next
  case (Cons u us)
  from Cons.prems obtain out where out: "run_converters (w n) cs i u = Inr out"
    and run: "parse_values w i cs us (Suc n) (record_value u out (s, f, e)) = Inr (s', f', e')"
    by (auto split: sum.splits)
  obtain s1 f1 e1 where rv: "record_value u out (s, f, e) = (s1, f1, e1)"
    by (cases "record_value u out (s, f, e)")
  from Cons.prems(2) have ne: "v \<noteq> u" and notin: "v \<notin> set us" by auto
  from run rv have "parse_values w i cs us (Suc n) (s1, f1, e1) = Inr (s', f', e')" by simp
  from Cons.IH [OF this notin] have "map_of e' v = map_of e1 v" .
  also have "map_of e1 v = map_of e v"
    using record_value_facts(5) [OF out rv, of v] ne by simp
  finally show ?case .
qed

lemma parse_values_last_error:
  assumes "parse_values w i cs vs n (s, f, e) = Inr (s', f', e')"
    and "k < length vs" and "vs ! k = v" and "v \<notin> set (drop (Suc k) vs)"
    and "error_of (w (n + k)) cs i v = Some x"
  shows "map_of e' v = Some x"
  using assms
proof (induction vs arbitrary: n s f e k)
  case Nil
  then show ?case by simp
next
  case (Cons u us)
  from Cons.prems(1) obtain out where out: "run_converters (w n) cs i u = Inr out"
    and run: "parse_values w i cs us (Suc n) (record_value u out (s, f, e)) = Inr (s', f', e')"
    by (auto split: sum.splits)
  obtain s1 f1 e1 where rv: "record_value u out (s, f, e) = (s1, f1, e1)"
    by (cases "record_value u out (s, f, e)")
  from run rv have pv: "parse_values w i cs us (Suc n) (s1, f1, e1) = Inr (s', f', e')"
    by simp
  show ?case
  proof (cases k)
    case 0
    with Cons.prems have uv: "u = v" and notin: "v \<notin> set us"
      and err: "error_of (w n) cs i v = Some x"
      by simp_all
    have "map_of e1 v = Some x"
      using record_value_facts(5) [OF out rv, of v] uv err by simp
    with parse_values_error_kept [OF pv notin] show ?thesis by simp
  next
    case (Suc j)
    with Cons.prems have "j < length us" and "us ! j = v" and "v \<notin> set (drop (Suc j) us)"
      and "error_of (w (Suc n + j)) cs i v = Some x"
      by simp_all
    from Cons.IH [OF pv this] show ?thesis .
  qed
qed

lemma error_of_origin:
  assumes "error_of host cs i v = Some e"
  shows "\<exists>c\<in>set cs. invoke host i c v = Raised e \<and> expected_error c e"
proof -
  from assms obtain cv u where "run_converters host cs i v = Inr (cv, u, Some e)"
    by (auto simp: error_of_def split: sum.splits)
  then have "run_loop host i v cs (PyNone, None, None) = Inr (cv, u, Some e)"
    by (simp add: run_converters_def)
  from run_loop_error_origin [OF this] show ?thesis by simp
qed

text \<open>
  C3 (amended). When no converter succeeds and at least two raise their expected error
  kind, the error in the returned triple is the last error caught, not the first; and
  when this conversion is the one of the last occurrence of the value among the tokens of
  the parser, that error is the entry of the value in the errors mapping.
\<close>

theorem resolver_reports_last_error:
  assumes "\<forall>c\<in>set convs. fails host i v c"
    and "2 \<le> length (caught_errors host i v convs)"
  shows "(\<exists>val used. run_converters host convs i v =
            Inr (val, used, Some (last (caught_errors host i v convs))))
       \<and> (\<forall>w vs n maps succ fls errs k.
            k < length vs \<and> vs ! k = v \<and> v \<notin> set (drop (Suc k) vs) \<and> w (n + k) = host
            \<and> parse_values w i convs vs n maps = Inr (succ, fls, errs) \<longrightarrow>
            map_of errs v = Some (last (caught_errors host i v convs)))"
proof -
  have nt: "\<not> truthy PyNone" by simp
  from assms(2) have ne: "caught_errors host i v convs \<noteq> []" by auto
  then have lc: "last_caught host i v convs None = Some (last (caught_errors host i v convs))"
    by (simp add: last_caught_def last_map)
  from run_loop_all_fail [OF assms(1) nt, of None None] lc
  have run: "run_converters host convs i v =
               Inr (last_returned host i v convs PyNone, last (None # map Some convs),
                    Some (last (caught_errors host i v convs)))"
    by (simp add: run_converters_def)
  then have eo: "error_of host convs i v = Some (last (caught_errors host i v convs))"
    by (simp add: error_of_def)
  have "map_of errs v = Some (last (caught_errors host i v convs))"
    if "k < length vs" and "vs ! k = v" and "v \<notin> set (drop (Suc k) vs)"
      and "w (n + k) = host" and "parse_values w i convs vs n maps = Inr (succ, fls, errs)"
    for w :: "'a world" and vs n maps succ fls errs k
  proof -
    obtain s f e where maps: "maps = (s, f, e)" by (cases maps)
    from that(5) have pv: "parse_values w i convs vs n (s, f, e) = Inr (succ, fls, errs)"
      by (simp add: maps)
    from eo that(4)
    have "error_of (w (n + k)) convs i v = Some (last (caught_errors host i v convs))"
      by simp
    from parse_values_last_error [OF pv that(1) that(2) that(3) this] show ?thesis .
  qed
  with run show ?thesis by blast
qed

theorem resolver_reports_last_error_witness:
  "fails example_host () ''x'' IntegerConverter
   \<and> fails example_host () ''x'' commands_MemberConverter
   \<and> 2 \<le> length (caught_errors example_host () ''x'' [IntegerConverter, commands_MemberConverter])
   \<and> (\<exists>val used.
        run_converters example_host [IntegerConverter, commands_MemberConverter] () ''x'' =
          Inr (val, used, Some (BadArgument ''Member not found.'')))
   \<and> parse_values example_world () [IntegerConverter, commands_MemberConverter] [''x''] 0
       ([], [], []) =
       Inr ([], [(''x'', Some commands_MemberConverter)],
            [(''x'', BadArgument ''Member not found.'')])
   \<and> map_of [(''x'', BadArgument ''Member not found.'')] ''x'' =
       Some (BadArgument ''Member not found.'')"
proof -
  have h1: "\<forall>c\<in>set [IntegerConverter, commands_MemberConverter]. fails example_host () ''x'' c"
    by (simp add: eval_defs)
  have ce: "caught_errors example_host () ''x'' [IntegerConverter, commands_MemberConverter] =
              [NotAnInteger ''x'', BadArgument ''Member not found.'']"
    by (simp add: eval_defs)
  have h2: "2 \<le> length (caught_errors example_host () ''x''
                           [IntegerConverter, commands_MemberConverter])"
    by (simp add: ce)
  have la: "last [NotAnInteger ''x'', BadArgument ''Member not found.''] =
              BadArgument ''Member not found.''"
    by simp
  have pv: "parse_values example_world () [IntegerConverter, commands_MemberConverter] [''x''] 0
       ([], [], []) =
       Inr ([], [(''x'', Some commands_MemberConverter)],
            [(''x'', BadArgument ''Member not found.'')])"
    by (simp add: eval_defs record_value_def)
  note t = resolver_reports_last_error [OF h1 h2]
  from t
  have "\<exists>val used.
        run_converters example_host [IntegerConverter, commands_MemberConverter] () ''x'' =
          Inr (val, used, Some (last (caught_errors example_host () ''x''
                                        [IntegerConverter, commands_MemberConverter])))"
    by (rule conjunct1)
  then have a: "\<exists>val used.
        run_converters example_host [IntegerConverter, commands_MemberConverter] () ''x'' =
          Inr (val, used, Some (BadArgument ''Member not found.''))"
    by (simp only: ce la)
  have k: "(0::nat) < length [''x''] \<and> [''x''] ! 0 = ''x'' \<and> ''x'' \<notin> set (drop (Suc 0) [''x''])
           \<and> example_world (0 + 0) = example_host"
    by (simp add: example_world_def)
  from t k pv
  have "map_of [(''x'', BadArgument ''Member not found.'')] ''x'' =
          Some (last (caught_errors example_host () ''x''
                        [IntegerConverter, commands_MemberConverter]))"
    by blast
  then have b: "map_of [(''x'', BadArgument ''Member not found.'')] ''x'' =
          Some (BadArgument ''Member not found.'')"
    by (simp only: ce la)
  have "fails example_host () ''x'' IntegerConverter"
    and "fails example_host () ''x'' commands_MemberConverter"
    using h1 by simp_all
  with a b pv h2 show ?thesis by blast
qed

text \<open>
  The claim as stated fails: on "x" the integer converter raises \<open>NotAnInteger\<close> first and
  the member converter raises \<open>BadArgument\<close> after it; the triple and the errors mapping
  hold the second error.
\<close>

theorem resolver_first_error_counterexample:
  "fails example_host () ''x'' IntegerConverter
   \<and> fails example_host () ''x'' commands_MemberConverter
   \<and> caught_errors example_host () ''x'' [IntegerConverter, commands_MemberConverter] =
       [NotAnInteger ''x'', BadArgument ''Member not found.'']
   \<and> run_converters example_host [IntegerConverter, commands_MemberConverter] () ''x'' =
       Inr (PyNone, Some commands_MemberConverter, Some (BadArgument ''Member not found.''))
   \<and> parse_values example_world () [IntegerConverter, commands_MemberConverter] [''x''] 0
       ([], [], []) =
       Inr ([], [(''x'', Some commands_MemberConverter)],
            [(''x'', BadArgument ''Member not found.'')])
   \<and> BadArgument ''Member not found.'' \<noteq> NotAnInteger ''x''"
  by (simp add: eval_defs record_value_def)

lemma transform_result:
  assumes "str_split arg (split_by self) = Inr vs"
    and "parse_values w i (converters self) vs 0 ([], [], []) = Inr (succ, fls, errs)"
  shows "StringParser_transform w self i arg =
           (if succ = [] \<or> (fail_on_error self \<and> fls \<noteq> [])
            then Inl (ParsingFailed arg errs)
            else if only_values self
            then Inr (Values (map (\<lambda>entry. fst (snd entry)) succ))
            else Inr (Result \<lparr>argument = arg, success = succ, failed = fls, errors = errs\<rparr>))"
  using assms by (simp add: StringParser_transform_def converted_def)

lemma transform_returns_result:
  assumes "StringParser_transform w self i arg = Inr (Result res)"
  shows "\<exists>vs. str_split arg (split_by self) = Inr vs
           \<and> parse_values w i (converters self) vs 0 ([], [], []) =
               Inr (success res, failed res, errors res)"
  using assms
  by (auto simp: StringParser_transform_def Let_def split: sum.splits if_splits)

text \<open>
  C4 (amended). When \<open>StringParser.transform\<close> returns a \<open>ParseResult\<close>, every token of the
  split argument is a key of the success mapping or of the failed mapping (never of
  neither): of the success mapping exactly when one of its occurrences converts, of the
  failed mapping exactly when one of its occurrences does not. So it is a key of exactly
  one of the two when all its occurrences convert alike, as a token that occurs once
  does. It is a key of the errors mapping only if a converter raised its expected error
  kind while one of its occurrences was converted.
\<close>

theorem parse_result_membership:
  assumes "StringParser_transform w self i arg = Inr (Result res)"
    and "str_split arg (split_by self) = Inr vs"
    and "v \<in> set vs"
  shows "(v \<in> keys (success res) \<longleftrightarrow>
            (\<exists>k<length vs. vs ! k = v \<and> converts (w k) (converters self) i v))
       \<and> (v \<in> keys (failed res) \<longleftrightarrow>
            (\<exists>k<length vs. vs ! k = v \<and> \<not> converts (w k) (converters self) i v))
       \<and> (v \<in> keys (success res) \<or> v \<in> keys (failed res))
       \<and> ((\<forall>j k. j < length vs \<and> k < length vs \<and> vs ! j = v \<and> vs ! k = v \<longrightarrow>
               converts (w j) (converters self) i v = converts (w k) (converters self) i v)
            \<longrightarrow> (v \<in> keys (success res)) \<noteq> (v \<in> keys (failed res)))
       \<and> (v \<in> keys (errors res) \<longrightarrow>
            (\<exists>k<length vs. vs ! k = v
               \<and> (\<exists>c\<in>set (converters self). \<exists>e.
                     invoke (w k) i c v = Raised e \<and> expected_error c e)))"
proof -
  from transform_returns_result [OF assms(1)] assms(2)
  have pv: "parse_values w i (converters self) vs 0 ([], [], []) =
              Inr (success res, failed res, errors res)"
    by auto
  from parse_values_facts [OF pv]
  have ks: "keys (success res) =
              {v. \<exists>k<length vs. vs ! k = v \<and> converts (w k) (converters self) i v}"
    and kf: "keys (failed res) =
              {v. \<exists>k<length vs. vs ! k = v \<and> \<not> converts (w k) (converters self) i v}"
    and ke: "keys (errors res) =
              {v. \<exists>k<length vs. vs ! k = v \<and> error_of (w k) (converters self) i v \<noteq> None}"
    by (simp_all add: keys_def in_enumerate_0)
  from assms(3) obtain k0 where k0: "k0 < length vs" "vs ! k0 = v"
    by (auto simp: in_set_conv_nth)
  have 1: "v \<in> keys (success res) \<longleftrightarrow>
            (\<exists>k<length vs. vs ! k = v \<and> converts (w k) (converters self) i v)"
    by (simp add: ks)
  have 2: "v \<in> keys (failed res) \<longleftrightarrow>
            (\<exists>k<length vs. vs ! k = v \<and> \<not> converts (w k) (converters self) i v)"
    by (simp add: kf)
  have 3: "v \<in> keys (success res) \<or> v \<in> keys (failed res)"
    unfolding 1 2 using k0 by blast
  have 4: "(v \<in> keys (success res)) \<noteq> (v \<in> keys (failed res))"
    if "\<forall>j k. j < length vs \<and> k < length vs \<and> vs ! j = v \<and> vs ! k = v \<longrightarrow>
               converts (w j) (converters self) i v = converts (w k) (converters self) i v"
    unfolding 1 2 using k0 that by blast
  have 5: "\<exists>k<length vs. vs ! k = v
               \<and> (\<exists>c\<in>set (converters self). \<exists>e.
                     invoke (w k) i c v = Raised e \<and> expected_error c e)"
    if "v \<in> keys (errors res)"
  proof -
    from that obtain k e where k: "k < length vs" "vs ! k = v"
      and "error_of (w k) (converters self) i v = Some e"
      by (auto simp: ke)
    from error_of_origin [OF this(3)] k show ?thesis by blast
  qed
  from 1 2 3 4 5 show ?thesis by blast
qed

theorem parse_result_membership_witness:
  "StringParser_transform example_world example_parser () ''1 x'' = Inr (Result example_result)
   \<and> str_split ''1 x'' (split_by example_parser) = Inr [''1'', ''x'']
   \<and> ''x'' \<in> set [''1'', ''x'']
   \<and> ((''x'' \<in> keys (success example_result)) \<noteq> (''x'' \<in> keys (failed example_result)))
   \<and> ''x'' \<in> keys (failed example_result)
   \<and> ''x'' \<in> keys (errors example_result)
   \<and> (\<exists>k<length [''1'', ''x'']. [''1'', ''x''] ! k = ''x''
         \<and> (\<exists>c\<in>set (converters example_parser). \<exists>e.
               invoke (example_world k) () c ''x'' = Raised e \<and> expected_error c e))"
proof -
  have h1: "StringParser_transform example_world example_parser () ''1 x'' =
              Inr (Result example_result)"
    by (simp add: example_parser_def example_result_def transform_defs)
  have h2: "str_split ''1 x'' (split_by example_parser) = Inr [''1'', ''x'']"
    by (simp add: example_parser_def str_split_def)
  have h3: "''x'' \<in> set [''1'', ''x'']" by simp
  have h4: "''x'' \<in> keys (errors example_result)"
    and h5: "''x'' \<in> keys (failed example_result)"
    by (simp_all add: example_result_def keys_def)
  have h6: "\<forall>j k. j < length [''1'', ''x''] \<and> k < length [''1'', ''x'']
              \<and> [''1'', ''x''] ! j = ''x'' \<and> [''1'', ''x''] ! k = ''x'' \<longrightarrow>
              converts (example_world j) (converters example_parser) () ''x'' =
              converts (example_world k) (converters example_parser) () ''x''"
    by (simp add: example_world_def)
  from parse_result_membership [OF h1 h2 h3] h1 h2 h3 h4 h5 h6 show ?thesis by blast
qed

text \<open>
  The claim as stated fails: in a world where the member is not found while the first
  "a" is converted and is found while the second is, the returned result has "a" as a
  key of both the failed and the success mapping.
\<close>

theorem parse_result_both_counterexample:
  "StringParser_transform changing_world member_parser () ''a a'' = Inr (Result member_result)
   \<and> str_split ''a a'' (split_by member_parser) = Inr [''a'', ''a'']
   \<and> ''a'' \<in> keys (success member_result)
   \<and> ''a'' \<in> keys (failed member_result)"
  by (simp add: member_parser_def member_result_def transform_defs keys_def)

text \<open>
  C7 (amended). When the delimiter is not empty and no converter raises an error outside
  its expected kind on a token, the loop over the tokens ends with a success mapping
  holding the tokens that convert and a failed mapping holding those that do not;
  \<open>StringParser.transform\<close> raises \<open>ParsingFailed\<close> exactly when the success mapping is
  empty, or \<open>fail_on_error\<close> is set and the failed mapping is not empty, and returns
  otherwise.
\<close>

theorem parsing_failed_iff:
  assumes "str_split arg (split_by self) = Inr vs"
    and "\<forall>k<length vs. \<forall>c\<in>set (converters self). \<not> raises_unexpected (w k) i (vs ! k) c"
  shows "\<exists>succ fls errs.
           parse_values w i (converters self) vs 0 ([], [], []) = Inr (succ, fls, errs)
         \<and> keys succ = {v. \<exists>k<length vs. vs ! k = v \<and> converts (w k) (converters self) i v}
         \<and> keys fls = {v. \<exists>k<length vs. vs ! k = v \<and> \<not> converts (w k) (converters self) i v}
         \<and> ((\<exists>a es. StringParser_transform w self i arg = Inl (ParsingFailed a es))
              \<longleftrightarrow> (succ = [] \<or> (fail_on_error self \<and> fls \<noteq> [])))
         \<and> ((succ = [] \<or> (fail_on_error self \<and> fls \<noteq> []))
              \<longrightarrow> StringParser_transform w self i arg = Inl (ParsingFailed arg errs))
         \<and> (\<not> (succ = [] \<or> (fail_on_error self \<and> fls \<noteq> []))
              \<longrightarrow> (\<exists>r. StringParser_transform w self i arg = Inr r))"
proof -
  have "\<forall>p\<in>set (enumerate 0 vs).
          \<exists>out. run_converters (w (fst p)) (converters self) i (snd p) = Inr out"
  proof
    fix p assume "p \<in> set (enumerate 0 vs)"
    then have "fst p < length vs" and "vs ! fst p = snd p"
      by (simp_all add: in_set_enumerate_eq)
    with assms(2)
    have "\<forall>c\<in>set (converters self). \<not> raises_unexpected (w (fst p)) i (snd p) c"
      by auto
    from run_loop_total [OF this]
    show "\<exists>out. run_converters (w (fst p)) (converters self) i (snd p) = Inr out"
      by (simp add: run_converters_def)
  qed
  from parse_values_total [OF this, of "([], [], [])"]
  obtain succ fls errs where
    pv: "parse_values w i (converters self) vs 0 ([], [], []) = Inr (succ, fls, errs)"
    by (metis prod_cases3)
  from parse_values_facts [OF pv]
  have ks: "keys succ = {v. \<exists>k<length vs. vs ! k = v \<and> converts (w k) (converters self) i v}"
    and kf: "keys fls =
               {v. \<exists>k<length vs. vs ! k = v \<and> \<not> converts (w k) (converters self) i v}"
    by (simp_all add: keys_def in_enumerate_0)
  note tr = transform_result [OF assms(1) pv]
  have a: "(\<exists>a es. StringParser_transform w self i arg = Inl (ParsingFailed a es))
              \<longleftrightarrow> (succ = [] \<or> (fail_on_error self \<and> fls \<noteq> []))"
    unfolding tr by auto
  have b: "(succ = [] \<or> (fail_on_error self \<and> fls \<noteq> []))
              \<longrightarrow> StringParser_transform w self i arg = Inl (ParsingFailed arg errs)"
    unfolding tr by simp
  have c: "\<not> (succ = [] \<or> (fail_on_error self \<and> fls \<noteq> []))
              \<longrightarrow> (\<exists>r. StringParser_transform w self i arg = Inr r)"
    unfolding tr by simp
  from pv ks kf a b c show ?thesis by blast
qed

theorem parsing_failed_iff_witness:
  "str_split ''1 x'' (split_by example_parser) = Inr [''1'', ''x'']
   \<and> converters example_parser = [IntegerConverter]
   \<and> \<not> raises_unexpected (example_world 0) () ''1'' IntegerConverter
   \<and> \<not> raises_unexpected (example_world 1) () ''x'' IntegerConverter
   \<and> (\<exists>succ fls errs.
         parse_values example_world () (converters example_parser) [''1'', ''x''] 0
           ([], [], []) = Inr (succ, fls, errs)
       \<and> keys succ = {v. \<exists>k<length [''1'', ''x'']. [''1'', ''x''] ! k = v
                           \<and> converts (example_world k) (converters example_parser) () v}
       \<and> keys fls = {v. \<exists>k<length [''1'', ''x'']. [''1'', ''x''] ! k = v
                           \<and> \<not> converts (example_world k) (converters example_parser) () v}
       \<and> ((\<exists>a es. StringParser_transform example_world example_parser () ''1 x'' =
                     Inl (ParsingFailed a es))
            \<longleftrightarrow> (succ = [] \<or> (fail_on_error example_parser \<and> fls \<noteq> [])))
       \<and> ((succ = [] \<or> (fail_on_error example_parser \<and> fls \<noteq> []))
            \<longrightarrow> StringParser_transform example_world example_parser () ''1 x'' =
                  Inl (ParsingFailed ''1 x'' errs))
       \<and> (\<not> (succ = [] \<or> (fail_on_error example_parser \<and> fls \<noteq> []))
            \<longrightarrow> (\<exists>r. StringParser_transform example_world example_parser () ''1 x'' = Inr r)))
   \<and> StringParser_transform example_world example_parser () ''1 x'' =
       Inr (Result example_result)"
proof -
  have h1: "str_split ''1 x'' (split_by example_parser) = Inr [''1'', ''x'']"
    by (simp add: example_parser_def str_split_def)
  have h4: "converters example_parser = [IntegerConverter]"
    by (simp add: example_parser_def)
  have h5: "\<not> raises_unexpected (example_world 0) () ''1'' IntegerConverter"
    and h6: "\<not> raises_unexpected (example_world 1) () ''x'' IntegerConverter"
    by (simp_all add: eval_defs)
  have h2: "\<forall>k<length [''1'', ''x'']. \<forall>c\<in>set (converters example_parser).
              \<not> raises_unexpected (example_world k) () ([''1'', ''x''] ! k) c"
  proof (intro allI impI ballI)
    fix k c assume "k < length [''1'', ''x'']" and "c \<in> set (converters example_parser)"
    then have "k = 0 \<or> k = 1" and c: "c = IntegerConverter"
      by (auto simp: h4)
    then show "\<not> raises_unexpected (example_world k) () ([''1'', ''x''] ! k) c"
      using h5 h6 by auto
  qed
  have h3: "StringParser_transform example_world example_parser () ''1 x'' =
              Inr (Result example_result)"
    by (simp add: example_parser_def example_result_def transform_defs)
  from parsing_failed_iff [OF h1 h2] h1 h3 h4 h5 h6 show ?thesis by blast
qed

text \<open>
  The claim as stated fails for two configurations: with an empty delimiter \<open>split\<close>
  raises \<open>ValueError\<close>, and with a converter that raises outside its expected kind that
  error leaves the parser; in both the call neither raises \<open>ParsingFailed\<close> nor returns.
\<close>

theorem parsing_other_raise_counterexample:
  "StringParser_transform example_world
     \<lparr>split_by = [], converters = [StringConverter], only_values = False,
      fail_on_error = False\<rparr> () ''a'' = Inl (ValueError ''empty separator'')
   \<and> \<not> is_ParsingFailed (ValueError ''empty separator'')
   \<and> StringParser_transform example_world
       \<lparr>split_by = '' '', converters = [commands_UserConverter], only_values = False,
        fail_on_error = False\<rparr> () ''a'' = Inl (OtherException ''HTTPException'')
   \<and> \<not> is_ParsingFailed (OtherException ''HTTPException'')"
  by (simp add: transform_defs)






end
